theory Spec2Isabelle
  imports Main "HOL-Library.Sublist" "HOL-Library.Log_Nat"
begin

section \<open>Python values, strings and exceptions\<close>

text \<open>
  A Python \<open>str\<close> is modelled as a \<open>string\<close>; each \<open>char\<close> stands for one code point
  below 256. Exceptions are values: every \<open>raise\<close> of the source is an \<open>Inl\<close> of the
  result type \<open>exn + 'a\<close>.
\<close>

datatype exn =
    ValueError string
  | IndexError string
  | AttributeError string
  | KeyError string
  | TypeError string
  | RequestException string
  | HTTPError string
  | DatabaseError string
  | OpenAIError string
  | ResponseError string
  | Exception string

text \<open>\<open>str(e)\<close>: the message of the exception.\<close>

fun str_exn :: "exn \<Rightarrow> string" where
  "str_exn (ValueError m) = m"
| "str_exn (IndexError m) = m"
| "str_exn (AttributeError m) = m"
| "str_exn (KeyError m) = m"
| "str_exn (TypeError m) = m"
| "str_exn (RequestException m) = m"
| "str_exn (HTTPError m) = m"
| "str_exn (DatabaseError m) = m"
| "str_exn (OpenAIError m) = m"
| "str_exn (ResponseError m) = m"
| "str_exn (Exception m) = m"

text \<open>\<open>str.isspace\<close> on one character: the whitespace code points below 256.\<close>

definition py_isspace :: "char \<Rightarrow> bool" where
  "py_isspace c =
     (let n = (of_char c :: nat)
      in (9 \<le> n \<and> n \<le> 13) \<or> (28 \<le> n \<and> n \<le> 32) \<or> n = 133 \<or> n = 160)"

text \<open>\<open>s.strip()\<close>: leading and trailing whitespace removed.\<close>

definition py_strip :: "string \<Rightarrow> string" where
  "py_strip s = rev (dropWhile py_isspace (rev (dropWhile py_isspace s)))"

text \<open>\<open>s.lower()\<close> on code points below 256.\<close>

definition py_lower_char :: "char \<Rightarrow> char" where
  "py_lower_char c =
     (let n = (of_char c :: nat)
      in if (65 \<le> n \<and> n \<le> 90) \<or> (192 \<le> n \<and> n \<le> 214) \<or> (216 \<le> n \<and> n \<le> 222)
         then char_of (n + 32) else c)"

definition py_lower :: "string \<Rightarrow> string" where
  "py_lower s = map py_lower_char s"

text \<open>
  \<open>s.split(sep, 1)\<close> for a non-empty separator: the text before and after the leftmost
  occurrence of \<open>sep\<close>, or the whole text alone when \<open>sep\<close> does not occur.
\<close>

fun py_partition :: "string \<Rightarrow> string \<Rightarrow> (string \<times> string) option" where
  "py_partition sep [] = (if sep = [] then Some ([], []) else None)"
| "py_partition sep (c # cs) =
     (if prefix sep (c # cs) then Some ([], drop (length sep) (c # cs))
      else (case py_partition sep cs of
              None \<Rightarrow> None
            | Some (a, b) \<Rightarrow> Some (c # a, b)))"

definition py_split1 :: "string \<Rightarrow> string \<Rightarrow> string list" where
  "py_split1 sep s = (case py_partition sep s of None \<Rightarrow> [s] | Some (a, b) \<Rightarrow> [a, b])"

text \<open>
  \<open>s.split(sep)\<close> for a non-empty separator: the pieces between all occurrences, found
  from the left. (Python raises \<open>ValueError\<close> for an empty separator; every separator of
  the program is a non-empty literal.)
\<close>

function py_split :: "string \<Rightarrow> string \<Rightarrow> string list" where
  "py_split sep s =
     (if sep = [] then [s]
      else (case py_partition sep s of
              None \<Rightarrow> [s]
            | Some (a, b) \<Rightarrow> a # py_split sep b))"
  by pat_completeness auto
termination
proof (relation "measure (\<lambda>(sep, s). length s)")
  show "wf (measure (\<lambda>(sep, s). length s))" by simp
next
  fix sep s :: string and x2 :: "string \<times> string" and a b :: string
  assume sep: "sep \<noteq> []" and part: "py_partition sep s = Some x2" and x2: "(a, b) = x2"
  have shorter: "py_partition sep t = Some (a', b') \<Longrightarrow> length b' < length t" for t a' b'
  proof (induction t arbitrary: a')
    case Nil
    with sep show ?case by simp
  next
    case (Cons c cs)
    show ?case
    proof (cases "prefix sep (c # cs)")
      case True
      with Cons.prems sep show ?thesis by (cases sep) auto
    next
      case False
      with Cons.prems obtain a'' where "py_partition sep cs = Some (a'', b')"
        by (auto split: option.splits)
      with Cons.IH show ?thesis by fastforce
    qed
  qed
  from part x2 have "py_partition sep s = Some (a, b)" by simp
  then have "length b < length s" by (rule shorter)
  then show "((sep, b), (sep, s)) \<in> measure (\<lambda>(sep, s). length s)" by simp
qed

declare py_split.simps [simp del]

text \<open>\<open>sep.join(xs)\<close>.\<close>

fun py_join :: "string \<Rightarrow> string list \<Rightarrow> string" where
  "py_join sep [] = []"
| "py_join sep [x] = x"
| "py_join sep (x # y # ys) = x @ sep @ py_join sep (y # ys)"

text \<open>\<open>str(n)\<close> for a natural number, as an f-string renders it.\<close>

definition digit_char :: "nat \<Rightarrow> char" where
  "digit_char d = char_of (48 + d)"

fun show_nat :: "nat \<Rightarrow> string" where
  "show_nat n = (if n < 10 then [digit_char n] else show_nat (n div 10) @ [digit_char (n mod 10)])"

declare show_nat.simps [simp del]

text \<open>
  \<open>int(s)\<close> in base 10. The whitespace that \<open>int\<close> ignores around the number is narrower
  than that of \<open>strip\<close>: the code points 28 to 31 are not part of it. One sign is allowed;
  the digits may be grouped by single underscores; more than 4300 digits (the default
  limit of the interpreter) are refused, before what follows the digits is looked at.
\<close>

definition int_isspace :: "char \<Rightarrow> bool" where
  "int_isspace c =
     (let n = (of_char c :: nat)
      in (9 \<le> n \<and> n \<le> 13) \<or> n = 32 \<or> n = 133 \<or> n = 160)"

definition int_strip :: "string \<Rightarrow> string" where
  "int_strip s = rev (dropWhile int_isspace (rev (dropWhile int_isspace s)))"

definition is_digit :: "char \<Rightarrow> bool" where
  "is_digit c = (let n = (of_char c :: nat) in 48 \<le> n \<and> n \<le> 57)"

fun digits_ok :: "bool \<Rightarrow> string \<Rightarrow> bool" where
  "digits_ok after_digit [] = after_digit"
| "digits_ok after_digit (c # cs) =
     (if is_digit c then digits_ok True cs
      else if c = CHR ''_'' \<and> after_digit then digits_ok False cs
      else False)"

definition digits_value :: "string \<Rightarrow> int" where
  "digits_value cs =
     foldl (\<lambda>acc c. if is_digit c then 10 * acc + (int (of_char c) - 48) else acc) 0 cs"

definition py_int :: "string \<Rightarrow> exn + int" where
  "py_int s =
     (let t = int_strip s;
          (sign, body) =
            (case t of
               c # cs \<Rightarrow> (if c = CHR ''-'' then (- 1, cs)
                           else if c = CHR ''+'' then (1, cs) else (1, t))
             | [] \<Rightarrow> (1, t));
          run = takeWhile (\<lambda>c. is_digit c \<or> c = CHR ''_'') body;
          rest = dropWhile (\<lambda>c. is_digit c \<or> c = CHR ''_'') body
      in if \<not> digits_ok False run
         then Inl (ValueError ''invalid literal for int() with base 10'')
         else if 4300 < length (filter is_digit run)
         then Inl (ValueError ''Exceeds the limit (4300 digits) for integer string conversion'')
         else if rest \<noteq> []
         then Inl (ValueError ''invalid literal for int() with base 10'')
         else Inr (sign * digits_value run))"

text \<open>\<open>xs[i]\<close> for a non-negative index: \<open>IndexError\<close> out of range.\<close>

definition py_index :: "'a list \<Rightarrow> nat \<Rightarrow> exn + 'a" where
  "py_index xs i =
     (if i < length xs then Inr (xs ! i) else Inl (IndexError ''list index out of range''))"

text \<open>
  The values a backend response is made of (decoded JSON): \<open>None\<close>, booleans, integers,
  strings, lists and dictionaries. A dictionary is an association list; a key is looked
  up with \<open>map_of\<close>.
\<close>

datatype pyval =
    PNone
  | PBool bool
  | PInt int
  | PStr string
  | PList "pyval list"
  | PDict "(string \<times> pyval) list"

text \<open>Truthiness, as \<open>not v\<close> tests it.\<close>

fun truthy :: "pyval \<Rightarrow> bool" where
  "truthy PNone = False"
| "truthy (PBool b) = b"
| "truthy (PInt i) = (i \<noteq> 0)"
| "truthy (PStr s) = (s \<noteq> [])"
| "truthy (PList xs) = (xs \<noteq> [])"
| "truthy (PDict kvs) = (kvs \<noteq> [])"

text \<open>\<open>v.get(k, default)\<close>: only a dictionary has the method.\<close>

fun py_get :: "pyval \<Rightarrow> string \<Rightarrow> pyval \<Rightarrow> exn + pyval" where
  "py_get (PDict kvs) k d = Inr (case map_of kvs k of None \<Rightarrow> d | Some v \<Rightarrow> v)"
| "py_get _ k d = Inl (AttributeError ''object has no attribute 'get' '')"

text \<open>\<open>v.strip()\<close>: only a string has the method.\<close>

fun py_strip_val :: "pyval \<Rightarrow> exn + string" where
  "py_strip_val (PStr s) = Inr (py_strip s)"
| "py_strip_val _ = Inl (AttributeError ''object has no attribute 'strip' '')"

section \<open>Provider abstraction (provider.py)\<close>

record ChatMessage =
  role :: string
  content :: string

text \<open>The payload of the hosted backend: the message content of each choice.\<close>

record openai_completion =
  choices :: "string option list"

datatype raw_response = OllamaRaw pyval | OpenAIRaw openai_completion

record ChatResponse =
  message :: "(string \<times> string option) list"
  raw_response :: raw_response

text \<open>
  A provider instance: the hosted one holds the API key and the base URL of its client,
  the local one the names of its embedding model and chat model.
\<close>

datatype AIProvider =
    OpenAIProvider string "string option"
  | OllamaProvider "string option" "string option"

text \<open>
  The two backends are outside the program: a call either raises or returns a payload.
  \<open>openai_create messages max_tokens temperature\<close> stands for
  \<open>client.chat.completions.create\<close>, \<open>ollama_chat model messages\<close> for \<open>ollama.chat\<close>
  (non-streaming). The temperature is passed on unchanged and is kept as the pair
  numerator, denominator of its decimal literal.
\<close>

record backends =
  openai_create :: "(string \<times> string) list \<Rightarrow> int \<Rightarrow> (int \<times> int) \<Rightarrow> exn + openai_completion"
  ollama_chat :: "string option \<Rightarrow> (string \<times> string) list \<Rightarrow> exn + pyval"

text \<open>The conversion of one message to the local backend's format.\<close>

definition ollama_format :: "ChatMessage \<Rightarrow> string \<times> string" where
  "ollama_format msg =
     (if role msg = ''system'' then (''system'', content msg)
      else ((if role msg = ''user'' then ''user'' else ''assistant''), content msg))"

text \<open>
  The handling of the local backend's response: the branch taken when the response is a
  dictionary with the key \<open>message\<close>, and the \<open>ValueError\<close> otherwise.
\<close>

definition ollama_handle :: "pyval \<Rightarrow> exn + ChatResponse" where
  "ollama_handle response =
     (case response of
        PDict kvs \<Rightarrow>
          (case map_of kvs ''message'' of
             Some m \<Rightarrow>
               (case py_get m ''content'' (PStr []) of
                  Inl e \<Rightarrow> Inl e
                | Inr c0 \<Rightarrow>
                    (let message_content =
                           (if \<not> truthy c0 \<and> map_of kvs ''content'' \<noteq> None
                            then (case map_of kvs ''content'' of Some v \<Rightarrow> v | None \<Rightarrow> PStr [])
                            else c0)
                     in (case py_strip_val message_content of
                           Inl e \<Rightarrow> Inl e
                         | Inr s \<Rightarrow>
                             Inr \<lparr>message = [(''assistant'', Some s)],
                                  raw_response = OllamaRaw response\<rparr>)))
           | None \<Rightarrow> Inl (ValueError ''Invalid response structure from Ollama''))
      | _ \<Rightarrow> Inl (ValueError ''Invalid response structure from Ollama''))"

text \<open>
  \<open>chat_completion\<close> of both providers. The handler of each logs the exception and raises
  it again, so the error value is passed on as it is.
\<close>

fun chat_completion ::
  "backends \<Rightarrow> AIProvider \<Rightarrow> ChatMessage list \<Rightarrow> int \<Rightarrow> (int \<times> int) \<Rightarrow> exn + ChatResponse" where
  "chat_completion B (OpenAIProvider api_key base_url) messages max_tokens temperature =
     (case openai_create B (map (\<lambda>msg. (role msg, content msg)) messages) max_tokens temperature of
        Inl e \<Rightarrow> Inl e
      | Inr response \<Rightarrow>
          (case py_index (choices response) 0 of
             Inl e \<Rightarrow> Inl e
           | Inr None \<Rightarrow> Inl (AttributeError ''object has no attribute 'strip' '')
           | Inr (Some c) \<Rightarrow>
               Inr \<lparr>message = [(''assistant'', Some (py_strip c))],
                    raw_response = OpenAIRaw response\<rparr>))"
| "chat_completion B (OllamaProvider embedding_model chat_model) messages max_tokens temperature =
     (case ollama_chat B chat_model (map ollama_format messages) of
        Inl e \<Rightarrow> Inl e
      | Inr response \<Rightarrow> ollama_handle response)"


section \<open>Floating-point scores\<close>

text \<open>
  A Python \<open>float\<close> is an IEEE 754 double: a finite value (kept as the rational it
  denotes), negative zero, an infinity or not-a-number. \<open>round_double\<close> rounds a rational
  to the nearest double, ties to even, with gradual underflow and overflow to infinity.
\<close>

datatype pyfloat = Finite rat | NegZero | PosInf | NegInf | NaN

definition pow2 :: "int \<Rightarrow> rat" where
  "pow2 e = (if 0 \<le> e then 2 ^ nat e else 1 / 2 ^ nat (- e))"

definition round_half_even :: "rat \<Rightarrow> int" where
  "round_half_even x =
     (let f = \<lfloor>x\<rfloor>; r = x - of_int f
      in if r < 1 / 2 then f else if 1 / 2 < r then f + 1 else if even f then f else f + 1)"

text \<open>For \<open>q > 0\<close>: the exponent \<open>k\<close> with \<open>2 ^ k \<le> q < 2 ^ (k + 1)\<close>.\<close>

definition binade :: "rat \<Rightarrow> int" where
  "binade q =
     (let (n, d) = quotient_of q;
          e0 = bitlen n - bitlen d
      in if q < pow2 e0 then e0 - 1 else e0)"

text \<open>
  For \<open>q > 0\<close>: the significand \<open>m\<close> has at most 53 bits at the exponent \<open>e\<close>, which is
  not below that of the subnormal numbers; the rounded value \<open>m * 2 ^ e\<close> reaches
  \<open>2 ^ 1024\<close>, and overflows, exactly when \<open>bitlen m + e\<close> exceeds 1024.
\<close>

definition round_double_pos :: "rat \<Rightarrow> pyfloat" where
  "round_double_pos q =
     (let e = max (binade q - 52) (- 1074);
          m = round_half_even (q / pow2 e)
      in if 1024 < bitlen m + e then PosInf else Finite (of_int m * pow2 e))"

fun float_neg :: "pyfloat \<Rightarrow> pyfloat" where
  "float_neg (Finite v) = (if v = 0 then NegZero else Finite (- v))"
| "float_neg NegZero = Finite 0"
| "float_neg PosInf = NegInf"
| "float_neg NegInf = PosInf"
| "float_neg NaN = NaN"

definition round_double :: "rat \<Rightarrow> pyfloat" where
  "round_double q =
     (if q = 0 then Finite 0
      else if 0 < q then round_double_pos q
      else float_neg (round_double_pos (- q)))"

text \<open>\<open>score*100\<close>: the integer becomes \<open>100.0\<close> and the product is rounded.\<close>

fun times_100 :: "pyfloat \<Rightarrow> pyfloat" where
  "times_100 (Finite v) = round_double (v * 100)"
| "times_100 NegZero = NegZero"
| "times_100 PosInf = PosInf"
| "times_100 NegInf = NegInf"
| "times_100 NaN = NaN"

text \<open>
  The format \<open>.1f\<close>: the exact value rounded to one decimal place, ties to even, the sign
  kept also when the digits are all zero.
\<close>

definition fixed1 :: "int \<Rightarrow> string" where
  "fixed1 n = show_nat (nat (n div 10)) @ ''.'' @ show_nat (nat (n mod 10))"

fun format_1f :: "pyfloat \<Rightarrow> string" where
  "format_1f (Finite v) =
     (if v < 0 then ''-'' @ fixed1 (round_half_even (- v * 10))
      else fixed1 (round_half_even (v * 10)))"
| "format_1f NegZero = ''-0.0''"
| "format_1f PosInf = ''inf''"
| "format_1f NegInf = ''-inf''"
| "format_1f NaN = ''nan''"


text \<open>
  The factory. Keyword arguments are an association list; \<open>environ\<close> is the process
  environment. The constructor of the hosted client takes a missing key from
  \<open>OPENAI_API_KEY\<close> and raises when there is none; a keyword that a constructor does not
  know is a \<open>TypeError\<close>.
\<close>

definition kwarg :: "(string \<times> string option) list \<Rightarrow> string \<Rightarrow> string option \<Rightarrow> string option" where
  "kwarg kwargs k d = (case map_of kwargs k of None \<Rightarrow> d | Some v \<Rightarrow> v)"

definition new_OpenAIProvider ::
  "(string \<Rightarrow> string option) \<Rightarrow> (string \<times> string option) list \<Rightarrow> exn + AIProvider" where
  "new_OpenAIProvider environ kwargs =
     (if \<exists>k \<in> set (map fst kwargs). k \<notin> {''api_key'', ''base_url'', ''headers''}
      then Inl (TypeError ''__init__() got an unexpected keyword argument'')
      else if map_of kwargs ''api_key'' = None
      then Inl (TypeError ''__init__() missing 1 required positional argument: 'api_key' '')
      else (case (case kwarg kwargs ''api_key'' None of
                    None \<Rightarrow> environ ''OPENAI_API_KEY''
                  | Some k \<Rightarrow> Some k) of
              None \<Rightarrow> Inl (OpenAIError ''The api_key client option must be set'')
            | Some k \<Rightarrow> Inr (OpenAIProvider k (kwarg kwargs ''base_url'' None))))"

definition new_OllamaProvider :: "(string \<times> string option) list \<Rightarrow> exn + AIProvider" where
  "new_OllamaProvider kwargs =
     (if \<exists>k \<in> set (map fst kwargs). k \<notin> {''embedding_model'', ''chat_model''}
      then Inl (TypeError ''__init__() got an unexpected keyword argument'')
      else Inr (OllamaProvider (kwarg kwargs ''embedding_model'' (Some ''nomic-embed-text''))
                               (kwarg kwargs ''chat_model'' (Some ''llama3''))))"

definition create_ai_provider ::
  "(string \<Rightarrow> string option) \<Rightarrow> string \<Rightarrow> (string \<times> string option) list \<Rightarrow> exn + AIProvider" where
  "create_ai_provider environ provider_type kwargs =
     (if py_lower provider_type = ''openai'' then
        (if \<not> (\<forall>key \<in> set [''api_key'']. map_of kwargs key \<noteq> None)
         then Inl (ValueError ''OpenAI provider requires these parameters: ['api_key']'')
         else new_OpenAIProvider environ kwargs)
      else if py_lower provider_type = ''ollama'' then new_OllamaProvider kwargs
      else Inl (ValueError (''Unknown provider type: '' @ provider_type)))"

definition getenv :: "(string \<Rightarrow> string option) \<Rightarrow> string \<Rightarrow> string \<Rightarrow> string" where
  "getenv environ k d = (case environ k of None \<Rightarrow> d | Some v \<Rightarrow> v)"

definition initialize_ai_provider :: "(string \<Rightarrow> string option) \<Rightarrow> exn + AIProvider" where
  "initialize_ai_provider environ =
     (let provider_type = py_lower (getenv environ ''AI_PROVIDER'' ''ollama'') in
      if provider_type = ''openai'' then
        create_ai_provider environ ''openai''
          [(''api_key'', environ ''OPENAI_API_KEY''), (''base_url'', environ ''OPENAI_BASE_URL'')]
      else if provider_type = ''ollama'' then
        create_ai_provider environ ''ollama''
          [(''embedding_model'', Some (getenv environ ''OLLAMA_EMBED_MODEL'' ''nomic-embed-text'')),
           (''chat_model'', Some (getenv environ ''OLLAMA_CHAT_MODEL'' ''llama3''))]
      else Inl (ValueError (''Unsupported AI provider: '' @ provider_type)))"

text \<open>The sequencing of calls that may raise: the first exception ends the computation.\<close>

definition bind_exn :: "exn + 'a \<Rightarrow> ('a \<Rightarrow> exn + 'b) \<Rightarrow> exn + 'b" where
  "bind_exn r f = (case r of Inl e \<Rightarrow> Inl e | Inr v \<Rightarrow> f v)"

section \<open>Repository store (db.py)\<close>

record repo_info =
  name :: string
  full_name :: string
  description :: "string option"
  readme :: "string option"
  url :: string
  language :: "string option"
  stars :: int

record repository_row =
  row_id :: nat
  row_github_username :: string
  info :: repo_info

text \<open>
  The datastore is outside the program. Its state is the table \<open>repositories\<close> and the
  counter of the \<open>id\<close> column; \<open>db_log\<close> records the operations the program asks for, in
  order; \<open>db_fault\<close> says which operations the datastore answers with an error;
  \<open>search_rows\<close> is the answer of the similarity query (embedding and vector distance
  are computed inside the datastore), as rows of combined text and similarity score.
\<close>

datatype db_op =
    Connect
  | SelectByFullName string
  | InsertRepository string
  | Commit
  | Rollback
  | Close
  | SemanticSearch string int

record database =
  rows :: "repository_row list"
  next_id :: nat
  db_log :: "db_op list"
  db_fault :: "db_op \<Rightarrow> exn option"
  search_rows :: "string \<Rightarrow> int \<Rightarrow> (string \<times> pyfloat) list"

definition db_do :: "database \<Rightarrow> db_op \<Rightarrow> database" where
  "db_do d op = d\<lparr>db_log := db_log d @ [op]\<rparr>"

text \<open>The handler of \<open>store_repository\<close>: roll back, wrap the error, close.\<close>

definition store_failed :: "database \<Rightarrow> exn \<Rightarrow> database \<times> (exn + nat)" where
  "store_failed d e =
     (db_do (db_do d Rollback) Close,
      Inl (Exception (''Error storing repository and embeddings: '' @ str_exn e)))"

definition store_repository :: "database \<Rightarrow> string \<Rightarrow> repo_info \<Rightarrow> database \<times> (exn + nat)" where
  "store_repository d username ri =
     (let d0 = db_do d Connect in
      case db_fault d Connect of
        Some e \<Rightarrow> (d0, Inl e)
      | None \<Rightarrow>
          (let d1 = db_do d0 (SelectByFullName (full_name ri)) in
           case db_fault d (SelectByFullName (full_name ri)) of
             Some e \<Rightarrow> store_failed d1 e
           | None \<Rightarrow>
               (case find (\<lambda>r. full_name (info r) = full_name ri) (rows d) of
                  Some existing_repo \<Rightarrow> (db_do d1 Close, Inr (row_id existing_repo))
                | None \<Rightarrow>
                    (let d2 = db_do d1 (InsertRepository (full_name ri)) in
                     case db_fault d (InsertRepository (full_name ri)) of
                       Some e \<Rightarrow> store_failed d2 e
                     | None \<Rightarrow>
                         (let repo_id = next_id d;
                              d3 = db_do d2 Commit in
                          case db_fault d Commit of
                            Some e \<Rightarrow> store_failed d3 e
                          | None \<Rightarrow>
                              (db_do (d3\<lparr>rows := rows d @
                                          [\<lparr>row_id = repo_id, row_github_username = username,
                                            info = ri\<rparr>],
                                        next_id := Suc repo_id\<rparr>) Close,
                               Inr repo_id))))))"

text \<open>\<open>search_for_repos\<close> has \<open>try\<close> and \<open>finally\<close> only: no handler.\<close>

definition search_for_repos ::
  "database \<Rightarrow> string \<Rightarrow> int \<Rightarrow> database \<times> (exn + (string \<times> pyfloat) list)" where
  "search_for_repos d query limit =
     (let d0 = db_do d Connect in
      case db_fault d Connect of
        Some e \<Rightarrow> (d0, Inl e)
      | None \<Rightarrow>
          (let d1 = db_do d0 (SemanticSearch query limit) in
           case db_fault d (SemanticSearch query limit) of
             Some e \<Rightarrow> (db_do d1 Close, Inl e)
           | None \<Rightarrow> (db_do d1 Close, Inr (search_rows d query limit))))"

section \<open>Retrieval pipeline (retrieval.py)\<close>

text \<open>The body of the \<open>try\<close> block: the three parts and the rendered line.\<close>

definition render_entry :: "string \<Rightarrow> pyfloat \<Rightarrow> exn + string" where
  "render_entry combined_text score =
     bind_exn (py_index (py_split1 ''name:'' combined_text) 1) (\<lambda>after_name.
     bind_exn (py_index (py_split1 ''url:'' after_name) 0) (\<lambda>name_raw.
     bind_exn (py_index (py_split1 ''url:'' combined_text) 1) (\<lambda>after_url.
     bind_exn (py_index (py_split1 ''content:'' after_url) 0) (\<lambda>url_raw.
     bind_exn (py_index (py_split1 ''content:'' combined_text) 1) (\<lambda>content_raw.
       Inr (''['' @ py_strip name_raw @ '']('' @ py_strip url_raw @ '') - '' @
            py_strip content_raw @ '' *Relevance: '' @ format_1f (times_100 score) @
            ''%*''))))))"

text \<open>
  The loop over the results: \<open>context\<close> grows by one line per well-formed result; an
  \<open>IndexError\<close> is caught and becomes a warning in the log; any other exception leaves
  the function.
\<close>

fun format_entries ::
  "(string \<times> pyfloat) list \<Rightarrow> string list \<Rightarrow> string list \<Rightarrow> string list \<times> (exn + string list)" where
  "format_entries [] context warnings = (warnings, Inr context)"
| "format_entries ((combined_text, score) # rest) context warnings =
     (case render_entry combined_text score of
        Inr line \<Rightarrow> format_entries rest (context @ [line]) warnings
      | Inl (IndexError m) \<Rightarrow>
          format_entries rest context
            (warnings @ [''Malformed repository entry: '' @ combined_text])
      | Inl e \<Rightarrow> (warnings, Inl e))"

definition context_header :: "string \<Rightarrow> string" where
  \<open>context_header query = ''# Your Starred Repositories Related to "'' @ query @ ''"''\<close>

definition context_note :: string where
  "context_note = [CHR 0x0A] @
     ''Note: The relevance scores are based on the similarity of the repository names and descriptions to the query.''"

text \<open>The result is the log of warnings and the rendered document.\<close>

definition format_repo_context ::
  "(string \<times> pyfloat) list \<Rightarrow> string \<Rightarrow> string list \<times> (exn + string)" where
  "format_repo_context repos query =
     (case format_entries repos [context_header query] [] of
        (warnings, Inl e) \<Rightarrow> (warnings, Inl e)
      | (warnings, Inr context) \<Rightarrow>
          (warnings,
           Inr (py_join [CHR 0x0A] (if context \<noteq> [] then context @ [context_note] else context))))"


text \<open>
  \<open>generate_response\<close> returns the rendered document, a \<open>str\<close>, when only the format is
  asked for, and otherwise the object that \<open>chat_completion\<close> returned.
\<close>

datatype response_value = Text string | Response ChatResponse

record services =
  environ :: "string \<Rightarrow> string option"
  ai_backends :: backends

definition system_prompt :: string where
  "system_prompt =
     ''You are a technical assistant specializing in analyzing GitHub repositories.'' @ [CHR 0x0A] @
     ''Provide concise, structured responses that:'' @ [CHR 0x0A] @
     ''1. Focus on how each repository specifically addresses the user's query'' @ [CHR 0x0A] @
     ''2. Highlight key technical features and capabilities'' @ [CHR 0x0A] @
     ''3. Keep explanations brief and to the point'' @ [CHR 0x0A] @
     ''4. Use markdown formatting appropriately''"

definition user_prompt :: "string \<Rightarrow> string" where
  "user_prompt repo_context =
     ''Based on the following repository information, provide a structured response that helps the user understand the most relevant repositories for their query.'' @
     [CHR 0x0A, CHR 0x0A] @ repo_context @ [CHR 0x0A, CHR 0x0A] @
     ''Focus on concrete technical details rather than general statements.''"

text \<open>
  The state is the datastore; the result carries the log of warnings. The search uses
  the default limit 5, and the provider is constructed before the context is rendered.
\<close>

definition generate_response ::
  "services \<Rightarrow> database \<Rightarrow> string \<Rightarrow> bool \<Rightarrow> database \<times> string list \<times> (exn + response_value)" where
  "generate_response sv d query format_only =
     (case search_for_repos d query 5 of
        (d', Inl e) \<Rightarrow> (d', [], Inl e)
      | (d', Inr similar_repos) \<Rightarrow>
          (case initialize_ai_provider (environ sv) of
             Inl e \<Rightarrow> (d', [], Inl e)
           | Inr provider \<Rightarrow>
               (case format_repo_context similar_repos query of
                  (warnings, Inl e) \<Rightarrow> (d', warnings, Inl e)
                | (warnings, Inr repo_context) \<Rightarrow>
                    (if format_only then (d', warnings, Inr (Text repo_context))
                     else
                       (let messages =
                              [\<lparr>role = ''system'', content = system_prompt\<rparr>,
                               \<lparr>role = ''user'', content = user_prompt repo_context\<rparr>]
                        in case chat_completion (ai_backends sv) provider messages 1000 (1, 10) of
                             Inl e \<Rightarrow> (d', warnings, Inl e)
                           | Inr response \<Rightarrow> (d', warnings, Inr (Response response)))))))"

section \<open>Ingestion pipeline (ingest.py)\<close>

text \<open>One item of the star list, with the fields the pipeline reads.\<close>

record starred_repo =
  item_name :: string
  item_full_name :: string
  item_description :: "string option"
  html_url :: string
  item_language :: "string option"
  stargazers_count :: int

text \<open>
  What \<open>requests.get\<close> gives back: the status code, the \<open>Link\<close> header, whether
  \<open>response.links\<close> has the relation \<open>next\<close>, the decoded list of items, and, for the
  README endpoint, the outcome of
  \<open>base64.b64decode(response.json()["content"]).decode('utf-8')\<close> on the body.
\<close>

record http_response =
  status_code :: nat
  link_header :: "string option"
  has_next_link :: bool
  json_items :: "starred_repo list"
  readme_payload :: "exn + string"

datatype status_event = Progress string nat int | Status string

text \<open>
  The world of one run: the answer to each URL (or the exception of the request), and
  the caller's sink, which accepts an event or raises.
\<close>

record ingest_env =
  http_get :: "string \<Rightarrow> exn + http_response"
  send_status :: "status_event \<Rightarrow> exn option"

text \<open>
  The effects of a run, in the order they happen: the requests, the events given to the
  sink, and the operations that the datastore carried out.
\<close>

datatype action = HttpGet string | SendStatus status_event | Datastore db_op

record ingest_state =
  db :: database
  trace :: "action list"

record ingest_result =
  github_username :: string
  repos_processed :: nat
  repositories :: "repo_info list"
  status :: string

definition act :: "ingest_state \<Rightarrow> action list \<Rightarrow> ingest_state" where
  "act st as = st\<lparr>trace := trace st @ as\<rparr>"

text \<open>
  What the datastore logged between an earlier and a later state: the operations that
  a call of the store carried out.
\<close>

definition ops_since :: "database \<Rightarrow> database \<Rightarrow> db_op list" where
  "ops_since before after = drop (length (db_log before)) (db_log after)"


text \<open>\<open>RequestException\<close> and its subclass \<open>HTTPError\<close>.\<close>

fun is_request_exception :: "exn \<Rightarrow> bool" where
  "is_request_exception (RequestException m) = True"
| "is_request_exception (HTTPError m) = True"
| "is_request_exception _ = False"

definition total_url :: "string \<Rightarrow> string" where
  "total_url username = ''https://api.github.com/users/'' @ username @ ''/starred?per_page=1''"

definition page_url :: "string \<Rightarrow> nat \<Rightarrow> nat \<Rightarrow> string" where
  "page_url username page per_page =
     ''https://api.github.com/users/'' @ username @ ''/starred?page='' @ show_nat page @
     ''&per_page='' @ show_nat per_page"

definition readme_url :: "string \<Rightarrow> string" where
  "readme_url repo_full_name = ''https://api.github.com/repos/'' @ repo_full_name @ ''/readme''"

text \<open>
  \<open>fetch_readme\<close>: one request. The result is the request made and either the text,
  \<open>None\<close>, or an exception that is not a \<open>RequestException\<close>.
\<close>

definition fetch_readme :: "ingest_env \<Rightarrow> string \<Rightarrow> action list \<times> (exn + string option)" where
  "fetch_readme env repo_full_name =
     (let readme_url = readme_url repo_full_name in
      ([HttpGet readme_url],
       (case http_get env readme_url of
          Inl e \<Rightarrow> (if is_request_exception e then Inr None else Inl e)
        | Inr response \<Rightarrow>
            (if status_code response = 200 then
               (case readme_payload response of
                  Inl e \<Rightarrow> (if is_request_exception e then Inr None else Inl e)
                | Inr text \<Rightarrow> Inr (Some text))
             else Inr None))))"

text \<open>The total, read from the \<open>Link\<close> header of the first response.\<close>

definition parse_total :: "string option \<Rightarrow> exn + int" where
  "parse_total link =
     (case link of
        None \<Rightarrow> Inl (AttributeError ''object has no attribute 'split' '')
      | Some l \<Rightarrow>
          bind_exn (py_index (py_split '','' l) 1) (\<lambda>a.
          bind_exn (py_index (py_split ''&page='' a) 1) (\<lambda>b.
          bind_exn (py_index (py_split ''>'' b) 0) py_int)))"

text \<open>\<open>if readme_content:\<close> holds for a text that is not empty.\<close>

definition readme_truthy :: "string option \<Rightarrow> bool" where
  "readme_truthy r = (case r of None \<Rightarrow> False | Some text \<Rightarrow> text \<noteq> [])"

definition make_repo_info :: "starred_repo \<Rightarrow> string option \<Rightarrow> repo_info" where
  "make_repo_info repo readme_content =
     \<lparr>name = item_name repo, full_name = item_full_name repo,
      description = item_description repo, readme = readme_content, url = html_url repo,
      language = item_language repo, stars = stargazers_count repo\<rparr>"

text \<open>The \<open>for\<close> loop over the items of one page.\<close>

fun process_repos ::
  "ingest_env \<Rightarrow> string \<Rightarrow> int \<Rightarrow> starred_repo list \<Rightarrow> ingest_state \<Rightarrow> repo_info list
   \<Rightarrow> ingest_state \<times> (exn + repo_info list)" where
  "process_repos env username total_repos [] st processed_repos = (st, Inr processed_repos)"
| "process_repos env username total_repos (repo # rest) st processed_repos =
     (let repo_name = item_full_name repo;
          event = Progress repo_name (length processed_repos) total_repos;
          st1 = act st [SendStatus event]
      in case send_status env event of
           Some e \<Rightarrow> (st1, Inl e)
         | None \<Rightarrow>
             (case fetch_readme env repo_name of
                (requests, Inl e) \<Rightarrow> (act st1 requests, Inl e)
              | (requests, Inr readme_content) \<Rightarrow>
                  (let st2 = act st1 requests;
                       repo_info = make_repo_info repo readme_content
                   in if readme_truthy readme_content then
                        (case store_repository (db st2) username repo_info of
                           (d, Inl e) \<Rightarrow>
                             (act (st2\<lparr>db := d\<rparr>) (map Datastore (ops_since (db st2) d)),
                              Inl e)
                         | (d, Inr repo_id) \<Rightarrow>
                             process_repos env username total_repos rest
                               (act (st2\<lparr>db := d\<rparr>) (map Datastore (ops_since (db st2) d)))
                               (processed_repos @ [repo_info]))
                      else process_repos env username total_repos rest st2
                             (processed_repos @ [repo_info]))))"



section \<open>The effects a run is expected to have\<close>














section \<open>Notions of the specification for the store and the retrieval\<close>

text \<open>
  An exception wraps another with context when its message ends with the message of the
  cause and has more text before it, as the handler of \<open>store_repository\<close> builds it. A
  combined text misses a marker when one of the three does not occur in it.
  \<open>rendered_lines\<close> and \<open>malformed_warnings\<close> are the lines and the warnings that a list of
  results gives, each result taken alone; \<open>first_part\<close> is \<open>split(sep, 1)[0]\<close>.
\<close>

definition wrapped_with_context :: "exn \<Rightarrow> exn \<Rightarrow> bool" where
  "wrapped_with_context cause e =
     (suffix (str_exn cause) (str_exn e) \<and> length (str_exn cause) < length (str_exn e))"

definition missing_marker :: "string \<Rightarrow> bool" where
  "missing_marker combined_text =
     (\<not> sublist ''name:'' combined_text \<or> \<not> sublist ''url:'' combined_text \<or>
      \<not> sublist ''content:'' combined_text)"

fun rendered_lines :: "(string \<times> pyfloat) list \<Rightarrow> string list" where
  "rendered_lines [] = []"
| "rendered_lines ((combined_text, score) # rest) =
     (case render_entry combined_text score of Inl e \<Rightarrow> [] | Inr line \<Rightarrow> [line]) @
     rendered_lines rest"

fun malformed_warnings :: "(string \<times> pyfloat) list \<Rightarrow> string list" where
  "malformed_warnings [] = []"
| "malformed_warnings ((combined_text, score) # rest) =
     (case render_entry combined_text score of
        Inl e \<Rightarrow> [''Malformed repository entry: '' @ combined_text]
      | Inr line \<Rightarrow> []) @
     malformed_warnings rest"

definition first_part :: "string \<Rightarrow> string \<Rightarrow> string" where
  "first_part sep t = (case py_partition sep t of None \<Rightarrow> t | Some (a, b) \<Rightarrow> a)"

section \<open>Synthetic collaborators\<close>

text \<open>
  A sink that accepts every event, a datastore without faults, and a star list of three
  items on one page: one with a README, one whose README request answers 404, one whose
  README is empty.
\<close>

definition accept_all :: "status_event \<Rightarrow> exn option" where
  "accept_all e = None"

definition no_fault :: "db_op \<Rightarrow> exn option" where
  "no_fault op = None"

definition no_rows :: "string \<Rightarrow> int \<Rightarrow> (string \<times> pyfloat) list" where
  "no_rows query limit = []"

definition empty_database :: database where
  "empty_database =
     \<lparr>rows = [], next_id = 1, db_log = [], db_fault = no_fault, search_rows = no_rows\<rparr>"

definition initial_state :: ingest_state where
  "initial_state = \<lparr>db = empty_database, trace = []\<rparr>"

definition repo_hello :: starred_repo where
  "repo_hello =
     \<lparr>item_name = ''hello'', item_full_name = ''octocat/hello'',
      item_description = Some ''My first repository'',
      html_url = ''https://github.com/octocat/hello'', item_language = None,
      stargazers_count = 3\<rparr>"

definition repo_bare :: starred_repo where
  "repo_bare =
     \<lparr>item_name = ''bare'', item_full_name = ''octocat/bare'', item_description = None,
      html_url = ''https://github.com/octocat/bare'', item_language = Some ''C'',
      stargazers_count = 0\<rparr>"

definition repo_blank :: starred_repo where
  "repo_blank =
     \<lparr>item_name = ''blank'', item_full_name = ''octocat/blank'', item_description = None,
      html_url = ''https://github.com/octocat/blank'', item_language = None,
      stargazers_count = 1\<rparr>"

definition sample_link :: string where
  \<open>sample_link =
     ''<https://api.github.com/user/583231/starred?per_page=1&page=2>; rel="next", <https://api.github.com/user/583231/starred?per_page=1&page=3>; rel="last"''\<close>

definition sample_http :: "string \<Rightarrow> exn + http_response" where
  "sample_http u =
     (if u = total_url ''octocat'' then
        Inr \<lparr>status_code = 200, link_header = Some sample_link, has_next_link = True,
             json_items = [repo_hello], readme_payload = Inl (KeyError ''content'')\<rparr>
      else if u = page_url ''octocat'' 1 100 then
        Inr \<lparr>status_code = 200, link_header = None, has_next_link = False,
             json_items = [repo_hello, repo_bare, repo_blank],
             readme_payload = Inl (KeyError ''content'')\<rparr>
      else if u = readme_url ''octocat/hello'' then
        Inr \<lparr>status_code = 200, link_header = None, has_next_link = False,
             json_items = [], readme_payload = Inr ''# Hello''\<rparr>
      else if u = readme_url ''octocat/blank'' then
        Inr \<lparr>status_code = 200, link_header = None, has_next_link = False,
             json_items = [], readme_payload = Inr []\<rparr>
      else
        Inr \<lparr>status_code = 404, link_header = None, has_next_link = False,
             json_items = [], readme_payload = Inl (KeyError ''content'')\<rparr>)"

definition sample_env :: ingest_env where
  "sample_env = \<lparr>http_get = sample_http, send_status = accept_all\<rparr>"






definition hello_info :: repo_info where
  "hello_info = make_repo_info repo_hello (Some ''# Hello'')"

text \<open>
  A network without connection, and a datastore whose similarity query fails.
\<close>

definition connection_refused :: "string \<Rightarrow> exn + http_response" where
  "connection_refused u = Inl (RequestException ''Connection refused'')"

definition offline_env :: ingest_env where
  "offline_env = \<lparr>http_get = connection_refused, send_status = accept_all\<rparr>"

definition search_fails :: "db_op \<Rightarrow> exn option" where
  "search_fails op =
     (case op of SemanticSearch q l \<Rightarrow> Some (DatabaseError ''connection reset'') | _ \<Rightarrow> None)"

definition failing_search_database :: database where
  "failing_search_database =
     \<lparr>rows = [], next_id = 1, db_log = [], db_fault = search_fails, search_rows = no_rows\<rparr>"

text \<open>
  A local backend that answers with a fixed payload: content nested under \<open>message\<close>,
  empty nested content with the content at the top level, and content at the top level
  only.
\<close>

definition no_openai :: "(string \<times> string) list \<Rightarrow> int \<Rightarrow> (int \<times> int) \<Rightarrow> exn + openai_completion" where
  "no_openai messages max_tokens temperature = Inl (OpenAIError ''Connection error.'')"

definition ollama_returns :: "pyval \<Rightarrow> string option \<Rightarrow> (string \<times> string) list \<Rightarrow> exn + pyval" where
  "ollama_returns response model messages = Inr response"

definition ollama_answering :: "pyval \<Rightarrow> backends" where
  "ollama_answering response =
     \<lparr>openai_create = no_openai, ollama_chat = ollama_returns response\<rparr>"

definition nested_response :: pyval where
  "nested_response = PDict [(''message'', PDict [(''role'', PStr ''assistant''), (''content'', PStr '' hi '')])]"

definition fallback_response :: pyval where
  "fallback_response =
     PDict [(''message'', PDict [(''role'', PStr ''assistant''), (''content'', PStr [])]),
            (''content'', PStr '' hi '')]"

definition top_level_response :: pyval where
  "top_level_response = PDict [(''content'', PStr '' hi '')]"

definition local_provider :: AIProvider where
  "local_provider = OllamaProvider (Some ''nomic-embed-text'') (Some ''llama3'')"

definition sample_messages :: "ChatMessage list" where
  "sample_messages = [\<lparr>role = ''system'', content = ''Be brief.''\<rparr>, \<lparr>role = ''user'', content = ''Say hi''\<rparr>]"

definition unset_environ :: "string \<Rightarrow> string option" where
  "unset_environ k = None"

definition sample_services :: services where
  "sample_services = \<lparr>environ = unset_environ, ai_backends = ollama_answering nested_response\<rparr>"

text \<open>
  Two search results: one with the three markers, one without \<open>url:\<close>.
\<close>

definition good_result :: "string \<times> pyfloat" where
  "good_result = (''name: X url: Y content: Z'', Finite (1 / 2))"

definition bad_result :: "string \<times> pyfloat" where
  "bad_result = (''name: broken content: no link'', Finite (1 / 4))"

section \<open>Properties of the provider abstraction\<close>

lemma ollama_handle_invalid_iff:
  "ollama_handle response = Inl (ValueError ''Invalid response structure from Ollama'')
   \<longleftrightarrow> (\<forall>kvs. response = PDict kvs \<longrightarrow> map_of kvs ''message'' = None)"
  by (cases response)
     (auto simp: ollama_handle_def Let_def split: option.splits sum.splits pyval.splits
           elim!: py_get.elims py_strip_val.elims)

lemma ollama_handle_nested:
  assumes "map_of kvs ''message'' = Some (PDict m)"
    and "map_of m ''content'' = Some (PStr c)" and "c \<noteq> []"
  shows "ollama_handle (PDict kvs) =
     Inr \<lparr>message = [(''assistant'', Some (py_strip c))], raw_response = OllamaRaw (PDict kvs)\<rparr>"
  using assms by (simp add: ollama_handle_def)

lemma ollama_handle_fallback:
  assumes "map_of kvs ''message'' = Some (PDict m)"
    and "case map_of m ''content'' of None \<Rightarrow> True | Some v \<Rightarrow> \<not> truthy v"
    and "map_of kvs ''content'' = Some (PStr c)"
  shows "ollama_handle (PDict kvs) =
     Inr \<lparr>message = [(''assistant'', Some (py_strip c))], raw_response = OllamaRaw (PDict kvs)\<rparr>"
  using assms by (auto simp add: ollama_handle_def split: option.splits)

text \<open>
  Claim C1, as amended. On the local-model path, when the backend answers with a
  dictionary that has the key \<open>message\<close>, \<open>chat_completion\<close> returns the Chat Response
  whose mapping is \<open>assistant\<close> to the stripped content, where the content is the one nested
  under \<open>message\<close> when that is not empty, and the top-level \<open>content\<close> when the nested one
  is missing or empty: both give the same mapping for equal content. The call fails with
  the error "Invalid response structure" exactly when the response is not a dictionary
  with the key \<open>message\<close>.
\<close>

theorem ollama_response_normalization:
  assumes "ollama_chat B chat_model (map ollama_format messages) = Inr response"
  shows "(chat_completion B (OllamaProvider embedding_model chat_model) messages max_tokens temperature
            = Inl (ValueError ''Invalid response structure from Ollama'')
          \<longleftrightarrow> (\<forall>kvs. response = PDict kvs \<longrightarrow> map_of kvs ''message'' = None))
       \<and> (\<forall>kvs m c.
            response = PDict kvs \<and> map_of kvs ''message'' = Some (PDict m) \<and>
            (map_of m ''content'' = Some (PStr c) \<and> c \<noteq> [] \<or>
             (case map_of m ''content'' of None \<Rightarrow> True | Some v \<Rightarrow> \<not> truthy v) \<and>
             map_of kvs ''content'' = Some (PStr c))
            \<longrightarrow> chat_completion B (OllamaProvider embedding_model chat_model) messages max_tokens
                  temperature
                = Inr \<lparr>message = [(''assistant'', Some (py_strip c))],
                       raw_response = OllamaRaw response\<rparr>)"
proof -
  have cc: "chat_completion B (OllamaProvider embedding_model chat_model) messages max_tokens
              temperature = ollama_handle response"
    using assms by simp
  show ?thesis
    unfolding cc
    using ollama_handle_invalid_iff [of response] ollama_handle_nested ollama_handle_fallback
    by blast
qed

text \<open>
  The theorem at the response with empty nested content and top-level content.
\<close>

theorem ollama_response_normalization_witness:
  "ollama_chat (ollama_answering fallback_response) (Some ''llama3'')
       (map ollama_format sample_messages) = Inr fallback_response \<and>
   chat_completion (ollama_answering fallback_response) (OllamaProvider (Some ''nomic-embed-text'') (Some ''llama3''))
       sample_messages 1000 (1, 10)
     = Inr \<lparr>message = [(''assistant'', Some ''hi'')], raw_response = OllamaRaw fallback_response\<rparr>"
proof -
  have h: "ollama_chat (ollama_answering fallback_response) (Some ''llama3'')
       (map ollama_format sample_messages) = Inr fallback_response"
    by (simp add: ollama_answering_def ollama_returns_def)
  have s: "py_strip '' hi '' = ''hi''" by code_simp
  from ollama_response_normalization [OF h, of "Some ''nomic-embed-text''" 1000 "(1, 10)"]
  have "chat_completion (ollama_answering fallback_response) (OllamaProvider (Some ''nomic-embed-text'') (Some ''llama3''))
       sample_messages 1000 (1, 10)
     = Inr \<lparr>message = [(''assistant'', Some (py_strip '' hi ''))], raw_response = OllamaRaw fallback_response\<rparr>"
    by (simp add: fallback_response_def)
  with h s show ?thesis by simp
qed

text \<open>
  Claim C1 as stated fails: a response with the content at the top level only is
  rejected with the structure error, while the nested shape with the same content is
  accepted.
\<close>

theorem top_level_content_counterexample:
  "chat_completion (ollama_answering top_level_response) local_provider sample_messages 1000 (1, 10)
     = Inl (ValueError ''Invalid response structure from Ollama'') \<and>
   chat_completion (ollama_answering nested_response) local_provider sample_messages 1000 (1, 10)
     = Inr \<lparr>message = [(''assistant'', Some ''hi'')], raw_response = OllamaRaw nested_response\<rparr>"
  by code_simp

section \<open>Properties of the repository store\<close>

lemma store_repository_existing:
  assumes "\<forall>op. db_fault d op = None"
    and "find (\<lambda>r. full_name (info r) = full_name ri) (rows d) = Some existing"
  shows "store_repository d u ri =
           (d\<lparr>db_log := db_log d @ [Connect, SelectByFullName (full_name ri), Close]\<rparr>,
            Inr (row_id existing))"
  using assms by (simp add: store_repository_def db_do_def Let_def)

lemma store_repository_new:
  assumes "\<forall>op. db_fault d op = None"
    and "find (\<lambda>r. full_name (info r) = full_name ri) (rows d) = None"
  shows "store_repository d u ri =
           (d\<lparr>rows := rows d @ [\<lparr>row_id = next_id d, row_github_username = u, info = ri\<rparr>],
              next_id := Suc (next_id d),
              db_log := db_log d @ [Connect, SelectByFullName (full_name ri),
                                    InsertRepository (full_name ri), Commit, Close]\<rparr>,
            Inr (next_id d))"
  using assms by (simp add: store_repository_def db_do_def Let_def)

lemma find_append_new:
  "find P xs = None \<Longrightarrow> P x \<Longrightarrow> find P (xs @ [x]) = Some x"
  by (induction xs) (auto split: if_splits)

lemma filter_none: "find P xs = None \<Longrightarrow> filter P xs = []"
  by (induction xs) (auto split: if_splits)

lemma filter_some: "find P xs = Some x \<Longrightarrow> 0 < length (filter P xs)"
  by (induction xs) (auto split: if_splits)


text \<open>
  Claim C6. When the datastore answers without error: if a record with the same
  qualified name exists, \<open>store_repository\<close> returns its id, and the only operations are
  the connection, the lookup and the close (no insert, no commit); otherwise it inserts
  the record, commits and returns the new id. Two calls in sequence with the same
  qualified name return the same id, the second leaves the table as the first left it,
  and a table that had at most one record of that name has exactly one afterwards.
\<close>

theorem store_repository_idempotent:
  assumes nf: "\<forall>op. db_fault d op = None"
  shows "(\<forall>existing. find (\<lambda>r. full_name (info r) = full_name ri) (rows d) = Some existing \<longrightarrow>
            store_repository d u ri =
              (d\<lparr>db_log := db_log d @ [Connect, SelectByFullName (full_name ri), Close]\<rparr>,
               Inr (row_id existing)))
       \<and> (find (\<lambda>r. full_name (info r) = full_name ri) (rows d) = None \<longrightarrow>
            store_repository d u ri =
              (d\<lparr>rows := rows d @ [\<lparr>row_id = next_id d, row_github_username = u, info = ri\<rparr>],
                 next_id := Suc (next_id d),
                 db_log := db_log d @ [Connect, SelectByFullName (full_name ri),
                                       InsertRepository (full_name ri), Commit, Close]\<rparr>,
               Inr (next_id d)))
       \<and> (\<forall>d1 r1 d2 r2.
            store_repository d u ri = (d1, r1) \<and> store_repository d1 u' ri' = (d2, r2) \<and>
            full_name ri' = full_name ri \<longrightarrow>
              r2 = r1 \<and> rows d2 = rows d1 \<and> (\<exists>repo_id. r1 = Inr repo_id) \<and>
              (length (filter (\<lambda>r. full_name (info r) = full_name ri) (rows d)) \<le> 1 \<longrightarrow>
               length (filter (\<lambda>r. full_name (info r) = full_name ri) (rows d2)) = 1))"
proof (intro conjI allI impI)
  fix existing
  assume "find (\<lambda>r. full_name (info r) = full_name ri) (rows d) = Some existing"
  with nf show "store_repository d u ri =
              (d\<lparr>db_log := db_log d @ [Connect, SelectByFullName (full_name ri), Close]\<rparr>,
               Inr (row_id existing))"
    by (rule store_repository_existing)
next
  assume "find (\<lambda>r. full_name (info r) = full_name ri) (rows d) = None"
  with nf show "store_repository d u ri =
              (d\<lparr>rows := rows d @ [\<lparr>row_id = next_id d, row_github_username = u, info = ri\<rparr>],
                 next_id := Suc (next_id d),
                 db_log := db_log d @ [Connect, SelectByFullName (full_name ri),
                                       InsertRepository (full_name ri), Commit, Close]\<rparr>,
               Inr (next_id d))"
    by (rule store_repository_new)
next
  fix d1 r1 d2 r2
  assume a: "store_repository d u ri = (d1, r1) \<and> store_repository d1 u' ri' = (d2, r2) \<and>
            full_name ri' = full_name ri"
  let ?P = "\<lambda>r. full_name (info r) = full_name ri"
  have twice: "r2 = r1 \<and> rows d2 = rows d1 \<and> (\<exists>repo_id. r1 = Inr repo_id) \<and>
              (length (filter ?P (rows d)) \<le> 1 \<longrightarrow> length (filter ?P (rows d2)) = 1)"
  proof (cases "find ?P (rows d)")
    case None
    let ?row = "\<lparr>row_id = next_id d, row_github_username = u, info = ri\<rparr>"
    from store_repository_new [OF nf None, of u] a
    have d1: "rows d1 = rows d @ [?row]" "db_fault d1 = db_fault d" and r1: "r1 = Inr (next_id d)"
      by auto
    have nf1: "\<forall>op. db_fault d1 op = None" using nf d1(2) by simp
    have f1: "find (\<lambda>r. full_name (info r) = full_name ri') (rows d1) = Some ?row"
      using a d1(1) find_append_new [OF None, of ?row] by simp
    from store_repository_existing [OF nf1 f1, of u'] a
    have "r2 = Inr (next_id d)" "rows d2 = rows d1" by auto
    with r1 d1(1) filter_none [OF None] show ?thesis by simp
  next
    case (Some existing)
    from store_repository_existing [OF nf Some, of u] a
    have d1: "rows d1 = rows d" "db_fault d1 = db_fault d" and r1: "r1 = Inr (row_id existing)"
      by auto
    have nf1: "\<forall>op. db_fault d1 op = None" using nf d1(2) by simp
    have f1: "find (\<lambda>r. full_name (info r) = full_name ri') (rows d1) = Some existing"
      using a d1(1) Some by simp
    from store_repository_existing [OF nf1 f1, of u'] a
    have r2: "r2 = Inr (row_id existing)" "rows d2 = rows d1" by auto
    have "0 < length (filter ?P (rows d))" using Some by (rule filter_some)
    then have "length (filter ?P (rows d)) \<le> 1 \<longrightarrow> length (filter ?P (rows d)) = 1"
      by arith
    with r1 r2 d1(1) show ?thesis by simp
  qed
  from twice show "r2 = r1" by blast
  from twice show "rows d2 = rows d1" by blast
  from twice show "\<exists>repo_id. r1 = Inr repo_id" by blast
  assume "length (filter ?P (rows d)) \<le> 1"
  with twice show "length (filter ?P (rows d2)) = 1" by blast
qed

text \<open>
  The theorem at the empty table: both calls return the id 1 and one record is stored.
\<close>

theorem store_repository_idempotent_witness:
  "(\<forall>op. db_fault empty_database op = None) \<and>
   snd (store_repository empty_database ''octocat'' hello_info) = Inr 1 \<and>
   snd (store_repository (fst (store_repository empty_database ''octocat'' hello_info))
          ''octocat'' hello_info) = Inr 1 \<and>
   length (rows (fst (store_repository (fst (store_repository empty_database ''octocat'' hello_info))
          ''octocat'' hello_info))) = 1"
proof -
  have nf: "\<forall>op. db_fault empty_database op = None"
    by (simp add: empty_database_def no_fault_def)
  have none: "find (\<lambda>r. full_name (info r) = full_name hello_info) (rows empty_database) = None"
    by (simp add: empty_database_def)
  note idem = store_repository_idempotent [OF nf, of hello_info "''octocat''" "''octocat''" hello_info]
  from idem none have first:
    "store_repository empty_database ''octocat'' hello_info =
       (empty_database\<lparr>rows := rows empty_database @
            [\<lparr>row_id = next_id empty_database, row_github_username = ''octocat'', info = hello_info\<rparr>],
          next_id := Suc (next_id empty_database),
          db_log := db_log empty_database @ [Connect, SelectByFullName (full_name hello_info),
                                    InsertRepository (full_name hello_info), Commit, Close]\<rparr>,
        Inr (next_id empty_database))"
    by blast
  obtain d1 r1 where s1: "store_repository empty_database ''octocat'' hello_info = (d1, r1)"
    by (cases "store_repository empty_database ''octocat'' hello_info")
  obtain d2 r2 where s2: "store_repository d1 ''octocat'' hello_info = (d2, r2)"
    by (cases "store_repository d1 ''octocat'' hello_info")
  from idem s1 s2 have "r2 = r1 \<and> rows d2 = rows d1" by blast
  moreover from first s1 have "r1 = Inr 1" "length (rows d1) = 1"
    by (auto simp: empty_database_def)
  ultimately show ?thesis using nf s1 s2 by simp
qed

text \<open>
  Claim C5 as stated fails: a datastore error during the search reaches the caller as
  it was raised, not wrapped with context.
\<close>

theorem search_error_unwrapped_counterexample:
  "snd (search_for_repos failing_search_database ''timescale'' 5)
     = Inl (DatabaseError ''connection reset'') \<and>
   \<not> wrapped_with_context (DatabaseError ''connection reset'') (DatabaseError ''connection reset'')"
  by (simp add: search_for_repos_def failing_search_database_def search_fails_def
        wrapped_with_context_def Let_def)

text \<open>
  Claim C5, as amended. A datastore error raised by the connection or by the query of
  \<open>search_for_repos\<close> propagates to the caller unchanged (after the connection is closed,
  when it was open), and a search returns a list only when no datastore error occurred,
  the list being the one the datastore gave: a failed search never returns an empty
  list.
\<close>

theorem search_error_propagates_unchanged:
  "(db_fault d Connect = Some e \<longrightarrow> search_for_repos d query limit = (db_do d Connect, Inl e)) \<and>
   (db_fault d Connect = None \<and> db_fault d (SemanticSearch query limit) = Some e \<longrightarrow>
      search_for_repos d query limit =
        (db_do (db_do (db_do d Connect) (SemanticSearch query limit)) Close, Inl e)) \<and>
   (\<forall>results. snd (search_for_repos d query limit) = Inr results \<longrightarrow>
      db_fault d Connect = None \<and> db_fault d (SemanticSearch query limit) = None \<and>
      results = search_rows d query limit)"
  by (auto simp: search_for_repos_def Let_def split: option.splits)

text \<open>
  The theorem at the datastore whose query fails.
\<close>

theorem search_error_propagates_unchanged_witness:
  "db_fault failing_search_database Connect = None \<and>
   db_fault failing_search_database (SemanticSearch ''timescale'' 5)
     = Some (DatabaseError ''connection reset'') \<and>
   search_for_repos failing_search_database ''timescale'' 5 =
     (db_do (db_do (db_do failing_search_database Connect) (SemanticSearch ''timescale'' 5)) Close,
      Inl (DatabaseError ''connection reset''))"
proof -
  have h: "db_fault failing_search_database Connect = None \<and>
   db_fault failing_search_database (SemanticSearch ''timescale'' 5)
     = Some (DatabaseError ''connection reset'')"
    by (simp add: failing_search_database_def search_fails_def)
  with search_error_propagates_unchanged [of failing_search_database "DatabaseError ''connection reset''" "''timescale''" 5]
  show ?thesis by blast
qed

section \<open>Properties of the retrieval pipeline\<close>

lemma py_partition_None_iff:
  "sep \<noteq> [] \<Longrightarrow> py_partition sep t = None \<longleftrightarrow> \<not> sublist sep t"
  by (induction t) (auto simp: sublist_Cons_right split: option.splits)

lemma render_entry_eq:
  "render_entry t s =
     (case py_partition ''name:'' t of
        None \<Rightarrow> Inl (IndexError ''list index out of range'')
      | Some (a1, after_name) \<Rightarrow>
          (case py_partition ''url:'' t of
             None \<Rightarrow> Inl (IndexError ''list index out of range'')
           | Some (a2, after_url) \<Rightarrow>
               (case py_partition ''content:'' t of
                  None \<Rightarrow> Inl (IndexError ''list index out of range'')
                | Some (a3, content_raw) \<Rightarrow>
                    Inr (''['' @ py_strip (first_part ''url:'' after_name) @ '']('' @
                         py_strip (first_part ''content:'' after_url) @ '') - '' @
                         py_strip content_raw @ '' *Relevance: '' @
                         format_1f (times_100 s) @ ''%*''))))"
  by (simp add: render_entry_def bind_exn_def py_index_def py_split1_def first_part_def
           split: option.splits)

lemma render_entry_error:
  "render_entry t s = Inl e \<Longrightarrow> e = IndexError ''list index out of range''"
  by (simp add: render_entry_eq split: option.splits prod.splits)

lemma render_entry_malformed:
  assumes "missing_marker t"
  shows "render_entry t s = Inl (IndexError ''list index out of range'')"
proof -
  from assms have "py_partition ''name:'' t = None \<or> py_partition ''url:'' t = None \<or>
      py_partition ''content:'' t = None"
    by (simp add: missing_marker_def py_partition_None_iff)
  then show ?thesis
    by (auto simp add: render_entry_eq split: option.splits)
qed

lemma format_entries_eq:
  "format_entries repos ctx warnings =
     (warnings @ malformed_warnings repos, Inr (ctx @ rendered_lines repos))"
proof (induction repos arbitrary: ctx warnings)
  case Nil
  show ?case by simp
next
  case (Cons r rest)
  obtain t s where r: "r = (t, s)" by (cases r)
  show ?case
  proof (cases "render_entry t s")
    case (Inl e)
    with render_entry_error have "e = IndexError ''list index out of range''" by blast
    with Inl r Cons.IH show ?thesis by simp
  next
    case (Inr line)
    with r Cons.IH show ?thesis by simp
  qed
qed

lemma rendered_lines_append: "rendered_lines (xs @ ys) = rendered_lines xs @ rendered_lines ys"
  by (induction xs rule: rendered_lines.induct) simp_all

lemma malformed_warnings_append:
  "malformed_warnings (xs @ ys) = malformed_warnings xs @ malformed_warnings ys"
  by (induction xs rule: malformed_warnings.induct) simp_all

lemma format_repo_context_eq:
  "format_repo_context repos query =
     (malformed_warnings repos,
      Inr (py_join [CHR 0x0A] (context_header query # rendered_lines repos @ [context_note])))"
  by (simp add: format_repo_context_def format_entries_eq)

text \<open>
  Claim C8. A search result whose combined text misses one of the three markers is
  dropped: the formatter does not raise, the log gets the warning for it, and the
  document is the header, the lines of the other results in their order, and the note,
  which is the document rendered for the list without that result.
\<close>

theorem malformed_result_dropped:
  assumes "missing_marker t"
  shows "format_repo_context (xs @ (t, s) # ys) query =
           (malformed_warnings xs @ [''Malformed repository entry: '' @ t] @ malformed_warnings ys,
            Inr (py_join [CHR 0x0A]
                   (context_header query # rendered_lines xs @ rendered_lines ys @ [context_note])))
         \<and> snd (format_repo_context (xs @ (t, s) # ys) query) =
           snd (format_repo_context (xs @ ys) query)"
  using render_entry_malformed [OF assms, of s]
  by (simp add: format_repo_context_eq rendered_lines_append malformed_warnings_append)

text \<open>
  The theorem at a well-formed result followed by one without \<open>url:\<close>.
\<close>

theorem malformed_result_dropped_witness:
  "missing_marker (fst bad_result) \<and>
   format_repo_context [good_result, bad_result] ''q'' =
     ([''Malformed repository entry: name: broken content: no link''],
      snd (format_repo_context [good_result] ''q''))"
proof -
  have h: "missing_marker (fst bad_result)" by code_simp
  have mw: "malformed_warnings [good_result] = []" by code_simp
  note dropped = malformed_result_dropped [OF h, of "[good_result]" "snd bad_result" "[]" "''q''"]
  have a: "fst (format_repo_context [good_result, bad_result] ''q'') =
      [''Malformed repository entry: name: broken content: no link'']"
    using conjunct1 [OF dropped] by (simp add: mw bad_result_def)
  have b: "snd (format_repo_context [good_result, bad_result] ''q'') =
      snd (format_repo_context [good_result] ''q'')"
    using conjunct2 [OF dropped] by simp
  from a b have "format_repo_context [good_result, bad_result] ''q'' =
     ([''Malformed repository entry: name: broken content: no link''],
      snd (format_repo_context [good_result] ''q''))"
    by (simp add: prod_eq_iff)
  with h show ?thesis by (rule conjI)
qed

lemma py_partition_prefix:
  "sep \<noteq> [] \<Longrightarrow> py_partition sep (sep @ b) = Some ([], b)"
  by (cases sep) simp_all

lemma prefix_before_char:
  "prefix sep (a @ c # r) \<Longrightarrow> c \<notin> set sep \<Longrightarrow> prefix sep a"
  by (auto simp: prefix_append prefix_Cons)

lemma py_partition_after_char:
  "sep \<noteq> [] \<Longrightarrow> c \<notin> set sep \<Longrightarrow> \<not> sublist sep a \<Longrightarrow>
   py_partition sep (a @ c # sep @ b) = Some (a @ [c], b)"
proof (induction a)
  case Nil
  then have "\<not> prefix sep (c # sep @ b)" by (cases sep) auto
  with Nil show ?case by (simp add: py_partition_prefix)
next
  case (Cons x a)
  have "\<not> prefix sep ((x # a) @ c # sep @ b)"
    using prefix_before_char [of sep "x # a" c "sep @ b"] Cons.prems(2,3)
    by (auto dest: prefix_imp_sublist)
  moreover have "\<not> sublist sep a" using Cons.prems(3) by (simp add: sublist_Cons_right)
  ultimately show ?case using Cons by simp
qed

lemma sublist_across_char:
  "c \<notin> set sep \<Longrightarrow> sublist sep (u @ c # v) \<longleftrightarrow> sublist sep u \<or> sublist sep v"
proof (induction u)
  case Nil
  then have "\<not> prefix sep (c # v) \<or> sep = []" by (cases sep) auto
  then show ?case by (auto simp: sublist_Cons_right)
next
  case (Cons x u)
  have "prefix sep (x # u @ c # v) \<longleftrightarrow> prefix sep (x # u)"
    using prefix_before_char [of sep "x # u" c v] prefix_prefix [of sep "x # u" "c # v"]
      Cons.prems
    by auto
  with Cons show ?case by (auto simp: sublist_Cons_right)
qed

lemma py_strip_space_left: "py_isspace c \<Longrightarrow> py_strip (c # s) = py_strip s"
  by (simp add: py_strip_def)

lemma py_strip_space_right:
  assumes "py_isspace c"
  shows "py_strip (s @ [c]) = py_strip s"
proof (cases "\<forall>x \<in> set s. py_isspace x")
  case True
  then have d: "dropWhile py_isspace s = []" by (induction s) auto
  have "dropWhile py_isspace (s @ [c]) = []" using True assms by (induction s) auto
  with d show ?thesis by (simp only: py_strip_def rev.simps dropWhile.simps)
next
  case False
  with assms show ?thesis by (auto simp add: py_strip_def dropWhile_append)
qed

lemma space_is_space: "py_isspace CHR '' ''"
  by (simp add: py_isspace_def)

lemma relevance_873: "format_1f (times_100 (round_double (873 / 1000))) = ''87.3''"
  by code_simp

lemma marker_in_marker:
  "\<not> sublist ''url:'' ''name:''" "\<not> sublist ''content:'' ''name:''"
  "\<not> sublist ''content:'' ''url:''"
  by code_simp+

lemma render_entry_fields:
  assumes xu: "\<not> sublist ''url:'' X" and xc: "\<not> sublist ''content:'' X"
    and yc: "\<not> sublist ''content:'' Y"
  shows "render_entry (''name: '' @ X @ '' url: '' @ Y @ '' content: '' @ Z) score =
           Inr (''['' @ py_strip X @ '']('' @ py_strip Y @ '') - '' @ py_strip Z @
                '' *Relevance: '' @ format_1f (times_100 score) @ ''%*'')"
proof -
  let ?t = "''name: '' @ X @ '' url: '' @ Y @ '' content: '' @ Z"
  let ?after_name = "'' '' @ X @ '' url: '' @ Y @ '' content: '' @ Z"
  let ?after_url = "'' '' @ Y @ '' content: '' @ Z"
  have sp: "CHR '' '' \<notin> set ''url:''" "CHR '' '' \<notin> set ''content:''" by simp_all
  have p1: "py_partition ''name:'' ?t = Some ([], ?after_name)" by simp
  have n1: "\<not> sublist ''url:'' ('' '' @ X)"
    using sublist_across_char [OF sp(1), of "[]" X] xu by simp
  have p2: "py_partition ''url:'' ?after_name = Some ('' '' @ X @ '' '', ?after_url)"
    using py_partition_after_char [OF _ sp(1) n1, of ?after_url] by simp
  have n3: "\<not> sublist ''url:'' (''name: '' @ X)"
    using sublist_across_char [OF sp(1), of "''name:''" X] xu marker_in_marker(1) by simp
  have p3: "py_partition ''url:'' ?t = Some (''name: '' @ X @ '' '', ?after_url)"
    using py_partition_after_char [OF _ sp(1) n3, of ?after_url] by simp
  have n4: "\<not> sublist ''content:'' ('' '' @ Y)"
    using sublist_across_char [OF sp(2), of "[]" Y] yc by simp
  have p4: "py_partition ''content:'' ?after_url = Some ('' '' @ Y @ '' '', '' '' @ Z)"
    using py_partition_after_char [OF _ sp(2) n4, of "'' '' @ Z"] by simp
  have n5a: "\<not> sublist ''content:'' (''url: '' @ Y)"
    using sublist_across_char [OF sp(2), of "''url:''" Y] yc marker_in_marker(3) by simp
  have n5b: "\<not> sublist ''content:'' (X @ '' url: '' @ Y)"
    using sublist_across_char [OF sp(2), of X "''url: '' @ Y"] xc n5a by simp
  have n5: "\<not> sublist ''content:'' (''name: '' @ X @ '' url: '' @ Y)"
    using sublist_across_char [OF sp(2), of "''name:''" "X @ '' url: '' @ Y"] n5b
      marker_in_marker(2) by simp
  have p5: "py_partition ''content:'' ?t =
              Some (''name: '' @ X @ '' url: '' @ Y @ '' '', '' '' @ Z)"
    using py_partition_after_char [OF _ sp(2) n5, of "'' '' @ Z"] by simp
  have s1: "py_strip ('' '' @ X @ '' '') = py_strip X"
    using py_strip_space_left [OF space_is_space, of "X @ '' ''"]
      py_strip_space_right [OF space_is_space, of X] by simp
  have s2: "py_strip ('' '' @ Y @ '' '') = py_strip Y"
    using py_strip_space_left [OF space_is_space, of "Y @ '' ''"]
      py_strip_space_right [OF space_is_space, of Y] by simp
  have s3: "py_strip ('' '' @ Z) = py_strip Z"
    using py_strip_space_left [OF space_is_space, of Z] by simp
  show ?thesis
    unfolding render_entry_eq p1 p3 p5 option.case prod.case first_part_def p2 p4 s1 s2 s3 ..
qed

text \<open>
  Claim C9. For the combined text \<open>name: X url: Y content: Z\<close> and the score 0.873 (the
  double nearest to it), the context has, between the header and the note, the line
  \<open>[X](Y) - Z *Relevance: 87.3%*\<close>. The fields \<open>X\<close>, \<open>Y\<close> and \<open>Z\<close> are any texts without
  surrounding whitespace such that \<open>X\<close> holds neither \<open>url:\<close> nor \<open>content:\<close> and \<open>Y\<close> does not
  hold \<open>content:\<close>.
\<close>

theorem context_formatting_round_trip:
  assumes "\<not> sublist ''url:'' X" and "\<not> sublist ''content:'' X"
    and "\<not> sublist ''content:'' Y"
    and "py_strip X = X" and "py_strip Y = Y" and "py_strip Z = Z"
  shows "format_repo_context
           [(''name: '' @ X @ '' url: '' @ Y @ '' content: '' @ Z, round_double (873 / 1000))]
           query =
         ([], Inr (context_header query @ [CHR 0x0A] @
                   ''['' @ X @ '']('' @ Y @ '') - '' @ Z @ '' *Relevance: 87.3%*'' @
                   [CHR 0x0A] @ context_note))"
  using render_entry_fields [OF assms(1-3), of Z "round_double (873 / 1000)"] assms(4-6)
  by (simp add: format_repo_context_eq relevance_873)

text \<open>
  The theorem at the literal fields \<open>X\<close>, \<open>Y\<close> and \<open>Z\<close>.
\<close>

theorem context_formatting_round_trip_witness:
  "\<not> sublist ''url:'' ''X'' \<and> \<not> sublist ''content:'' ''X'' \<and> \<not> sublist ''content:'' ''Y'' \<and>
   py_strip ''X'' = ''X'' \<and> py_strip ''Y'' = ''Y'' \<and> py_strip ''Z'' = ''Z'' \<and>
   format_repo_context [(''name: X url: Y content: Z'', round_double (873 / 1000))] ''q'' =
     ([], Inr (context_header ''q'' @ [CHR 0x0A] @ ''[X](Y) - Z *Relevance: 87.3%*'' @
               [CHR 0x0A] @ context_note))"
proof -
  have h: "\<not> sublist ''url:'' ''X''" "\<not> sublist ''content:'' ''X''"
    "\<not> sublist ''content:'' ''Y''"
    "py_strip ''X'' = ''X''" "py_strip ''Y'' = ''Y''" "py_strip ''Z'' = ''Z''"
    by code_simp+
  from context_formatting_round_trip [OF h, of "''q''"] h show ?thesis by simp
qed

text \<open>
  Claim C3 does not hold of the code: when the format alone is not asked for and the
  chat completion succeeds, \<open>generate_response\<close> returns the Chat Response object of the
  provider, not the answer text.
\<close>

theorem generate_response_returns_object:
  "snd (snd (generate_response sample_services empty_database ''Show me repos that use timescale'' False))
     = Inr (Response \<lparr>message = [(''assistant'', Some ''hi'')],
                      raw_response = OllamaRaw nested_response\<rparr>)"
  by code_simp

lemma generate_response_never_text:
  "snd (snd (generate_response sv d query False)) \<noteq> Inr (Text s)"
  by (simp add: generate_response_def Let_def split: prod.splits sum.splits)

section \<open>Properties of the ingestion pipeline\<close>

lemma fetch_readme_requests: "fst (fetch_readme env n) = [HttpGet (readme_url n)]"
  by (simp add: fetch_readme_def Let_def)






lemma process_repos_skip:
  assumes "send_status env (Progress (item_full_name repo) (length processed) total_repos) = None"
    and "snd (fetch_readme env (item_full_name repo)) = Inr readme_content"
    and "\<not> readme_truthy readme_content"
  shows "process_repos env u total_repos (repo # rest) st processed =
           process_repos env u total_repos rest
             (act st [SendStatus (Progress (item_full_name repo) (length processed) total_repos),
                      HttpGet (readme_url (item_full_name repo))])
             (processed @ [make_repo_info repo readme_content])"
proof -
  obtain rq where "fetch_readme env (item_full_name repo) = (rq, Inr readme_content)"
    using assms(2) by (cases "fetch_readme env (item_full_name repo)") simp
  moreover from this have "rq = [HttpGet (readme_url (item_full_name repo))]"
    using fetch_readme_requests [of env "item_full_name repo"] by simp
  ultimately show ?thesis using assms(1,3) by (simp add: Let_def act_def)
qed
















lemma sample_total: "parse_total (Some sample_link) = Inr 3"
  by code_simp










text \<open>
  Claim C4 as stated fails: when the README request raises a network error,
  \<open>fetch_readme\<close> returns \<open>None\<close> to its caller; no error is propagated.
\<close>

theorem readme_network_error_counterexample:
  "fetch_readme offline_env ''octocat/hello'' =
     ([HttpGet ''https://api.github.com/repos/octocat/hello/readme''], Inr None)"
  by (simp add: fetch_readme_def offline_env_def connection_refused_def readme_url_def)

text \<open>
  Claim C4, as amended. A network error contacting the README backend is not retried
  (one request is made); \<open>fetch_readme\<close> catches it and returns \<open>None\<close>, so the item is
  processed as one whose README is absent: it is appended to the processed list without
  a store call, and the run goes on with the next item.
\<close>

theorem readme_network_error_absorbed:
  assumes "http_get env (readme_url (item_full_name repo)) = Inl e"
    and "is_request_exception e"
    and "send_status env (Progress (item_full_name repo) (length processed) total_repos) = None"
  shows "fetch_readme env (item_full_name repo) =
           ([HttpGet (readme_url (item_full_name repo))], Inr None)
       \<and> process_repos env u total_repos (repo # rest) st processed =
           process_repos env u total_repos rest
             (act st [SendStatus (Progress (item_full_name repo) (length processed) total_repos),
                      HttpGet (readme_url (item_full_name repo))])
             (processed @ [make_repo_info repo None])"
proof -
  have f: "fetch_readme env (item_full_name repo) =
           ([HttpGet (readme_url (item_full_name repo))], Inr None)"
    using assms(1,2) by (simp add: fetch_readme_def)
  then have "snd (fetch_readme env (item_full_name repo)) = Inr None" by simp
  from process_repos_skip [OF assms(3) this] f show ?thesis by (simp add: readme_truthy_def)
qed

text \<open>
  The theorem at the network without connection.
\<close>

theorem readme_network_error_absorbed_witness:
  "http_get offline_env (readme_url (item_full_name repo_hello))
     = Inl (RequestException ''Connection refused'') \<and>
   is_request_exception (RequestException ''Connection refused'') \<and>
   send_status offline_env (Progress (item_full_name repo_hello) (length ([] :: repo_info list)) 3) = None \<and>
   process_repos offline_env ''octocat'' 3 [repo_hello] initial_state [] =
     (act initial_state [SendStatus (Progress ''octocat/hello'' 0 3),
                         HttpGet ''https://api.github.com/repos/octocat/hello/readme''],
      Inr [make_repo_info repo_hello None])"
proof -
  have h1: "http_get offline_env (readme_url (item_full_name repo_hello))
     = Inl (RequestException ''Connection refused'')"
    by (simp add: offline_env_def connection_refused_def)
  have h2: "is_request_exception (RequestException ''Connection refused'')" by simp
  have h3: "send_status offline_env (Progress (item_full_name repo_hello) (length ([] :: repo_info list)) 3) = None"
    by (simp add: offline_env_def accept_all_def)
  have names: "item_full_name repo_hello = ''octocat/hello''"
    "readme_url ''octocat/hello'' = ''https://api.github.com/repos/octocat/hello/readme''"
    by (simp_all add: repo_hello_def readme_url_def)
  from readme_network_error_absorbed [OF h1 h2 h3, of "''octocat''" "[]" initial_state]
  have eq: "process_repos offline_env ''octocat'' 3 [repo_hello] initial_state [] =
      process_repos offline_env ''octocat'' 3 []
        (act initial_state
           [SendStatus (Progress (item_full_name repo_hello) (length ([] :: repo_info list)) 3),
            HttpGet (readme_url (item_full_name repo_hello))])
        ([] @ [make_repo_info repo_hello None])"
    by blast
  have "process_repos offline_env ''octocat'' 3 [repo_hello] initial_state [] =
     (act initial_state [SendStatus (Progress ''octocat/hello'' 0 3),
                         HttpGet ''https://api.github.com/repos/octocat/hello/readme''],
      Inr [make_repo_info repo_hello None])"
    unfolding eq by (simp add: names)
  with h1 h2 h3 show ?thesis by blast
qed

text \<open>
  Claim C10. An item whose README request succeeds with an empty text is handled as a
  README-absent item: its progress event is sent, the README is requested, the store is
  not called and the datastore is unchanged, and the item is appended to the processed
  list, so it is counted and returned.
\<close>

theorem empty_readme_not_stored:
  assumes "http_get env (readme_url (item_full_name repo)) = Inr r"
    and "status_code r = 200" and "readme_payload r = Inr []"
    and "send_status env (Progress (item_full_name repo) (length processed) total_repos) = None"
  shows "fetch_readme env (item_full_name repo) =
           ([HttpGet (readme_url (item_full_name repo))], Inr (Some []))
       \<and> process_repos env u total_repos (repo # rest) st processed =
           process_repos env u total_repos rest
             (act st [SendStatus (Progress (item_full_name repo) (length processed) total_repos),
                      HttpGet (readme_url (item_full_name repo))])
             (processed @ [make_repo_info repo (Some [])])
       \<and> db (act st [SendStatus (Progress (item_full_name repo) (length processed) total_repos),
                      HttpGet (readme_url (item_full_name repo))]) = db st"
proof -
  have f: "fetch_readme env (item_full_name repo) =
           ([HttpGet (readme_url (item_full_name repo))], Inr (Some []))"
    using assms(1-3) by (simp add: fetch_readme_def)
  then have "snd (fetch_readme env (item_full_name repo)) = Inr (Some [])" by simp
  from process_repos_skip [OF assms(4) this] f show ?thesis
    by (simp add: readme_truthy_def act_def)
qed

text \<open>
  The theorem at the item of the star list whose README is empty.
\<close>

theorem empty_readme_not_stored_witness:
  "http_get sample_env (readme_url (item_full_name repo_blank)) =
     Inr \<lparr>status_code = 200, link_header = None, has_next_link = False,
          json_items = [], readme_payload = Inr []\<rparr> \<and>
   send_status sample_env (Progress (item_full_name repo_blank) (length ([] :: repo_info list)) 3) = None \<and>
   process_repos sample_env ''octocat'' 3 [repo_blank] initial_state [] =
     (act initial_state [SendStatus (Progress ''octocat/blank'' 0 3),
                         HttpGet ''https://api.github.com/repos/octocat/blank/readme''],
      Inr [make_repo_info repo_blank (Some [])]) \<and>
   rows (db (act initial_state [SendStatus (Progress ''octocat/blank'' 0 3),
                         HttpGet ''https://api.github.com/repos/octocat/blank/readme''])) = []"
proof -
  have h1: "http_get sample_env (readme_url (item_full_name repo_blank)) =
     Inr \<lparr>status_code = 200, link_header = None, has_next_link = False,
          json_items = [], readme_payload = Inr []\<rparr>"
    by code_simp
  have h4: "send_status sample_env (Progress (item_full_name repo_blank) (length ([] :: repo_info list)) 3) = None"
    by (simp add: sample_env_def accept_all_def)
  have names: "item_full_name repo_blank = ''octocat/blank''"
    "readme_url ''octocat/blank'' = ''https://api.github.com/repos/octocat/blank/readme''"
    by (simp_all add: repo_blank_def readme_url_def)
  from empty_readme_not_stored [OF h1 _ _ h4, of "''octocat''" "[]" initial_state]
  have eq: "process_repos sample_env ''octocat'' 3 [repo_blank] initial_state [] =
      process_repos sample_env ''octocat'' 3 []
        (act initial_state
           [SendStatus (Progress (item_full_name repo_blank) (length ([] :: repo_info list)) 3),
            HttpGet (readme_url (item_full_name repo_blank))])
        ([] @ [make_repo_info repo_blank (Some [])])"
    by simp
  have p: "process_repos sample_env ''octocat'' 3 [repo_blank] initial_state [] =
     (act initial_state [SendStatus (Progress ''octocat/blank'' 0 3),
                         HttpGet ''https://api.github.com/repos/octocat/blank/readme''],
      Inr [make_repo_info repo_blank (Some [])])"
    unfolding eq by (simp add: names)
  have r: "rows (db (act initial_state [SendStatus (Progress ''octocat/blank'' 0 3),
                         HttpGet ''https://api.github.com/repos/octocat/blank/readme''])) = []"
    by (simp add: act_def initial_state_def empty_database_def)
  from h1 h4 p r show ?thesis by blast
qed

end
